theory Spec2Isabelle
  imports Main
begin

section \<open>Plans: the data model of plan.go\<close>

text \<open>
  \<^verbatim>\<open>type PlanStatus string\<close>: a status is a string, and the constants below are the
  statuses the package names. A decoded plan may carry any string as its status.
\<close>

type_synonym PlanStatus = string

definition PlanCanceled :: PlanStatus where "PlanCanceled = ''canceled''"
definition PlanCreated :: PlanStatus where "PlanCreated = ''created''"
definition PlanErrored :: PlanStatus where "PlanErrored = ''errored''"
definition PlanFinished :: PlanStatus where "PlanFinished = ''finished''"
definition PlanMFAWaiting :: PlanStatus where "PlanMFAWaiting = ''mfa_waiting''"
definition PlanPending :: PlanStatus where "PlanPending = ''pending''"
definition PlanQueued :: PlanStatus where "PlanQueued = ''queued''"
definition PlanRunning :: PlanStatus where "PlanRunning = ''running''"
definition PlanUnreachable :: PlanStatus where "PlanUnreachable = ''unreachable''"

text \<open>The \<^verbatim>\<open>const ( ... )\<close> block "List all available plan statuses", in its order.\<close>

definition PlanStatus_constants :: "PlanStatus list" where
  "PlanStatus_constants =
     [PlanCanceled, PlanCreated, PlanErrored, PlanFinished, PlanMFAWaiting,
      PlanPending, PlanQueued, PlanRunning, PlanUnreachable]"

text \<open>
  \<^verbatim>\<open>type Plan struct\<close>. The fields \<^verbatim>\<open>StatusTimestamps\<close> and \<^verbatim>\<open>Exports\<close>, which no
  operation of this file reads, live in the record's extension slot.
\<close>

record Plan =
  ID :: string
  HasChanges :: bool
  GeneratedConfiguration :: bool
  LogReadURL :: string
  ResourceAdditions :: int
  ResourceChanges :: int
  ResourceDestructions :: int
  ResourceImports :: int
  Status :: PlanStatus

text \<open>
  A decoded \<^verbatim>\<open>interface{}\<close>: what \<^verbatim>\<open>encoding/json\<close> stores into an empty interface.
  A number keeps its literal.
\<close>

datatype any =
    JNull
  | JBool bool
  | JNumber string
  | JString string
  | JArray "any list"
  | JObject "(string \<times> any) list"

record Change =
  Actions :: "string list"
  After :: any
  AfterSensitive :: any
  AfterUnknown :: any
  Before :: any
  BeforeSensitive :: any

record ResourceChange =
  Address :: string
  Change :: Change
  Index :: any
  Mode :: string
  Name :: string
  ProviderName :: string
  Type :: string

record PlanResourceChanges =
  ResourceChanges :: "ResourceChange list"

section \<open>Errors, requests and the history of requests\<close>

text \<open>
  A Go \<^verbatim>\<open>error\<close> value. \<open>ErrInvalidPlanID\<close> is the package's sentinel; \<open>Errorf m\<close> is
  \<^verbatim>\<open>fmt.Errorf\<close> with the formatted message \<open>m\<close>; \<open>Errorf_w m e\<close> is \<^verbatim>\<open>fmt.Errorf\<close> with
  a \<^verbatim>\<open>%w\<close> verb, the prefix \<open>m\<close> wrapping \<open>e\<close>; \<open>Foreign m\<close> is an error made by a
  collaborator (request construction, transport, URL parsing, JSON decoding).
\<close>

datatype error =
    ErrInvalidPlanID
  | Errorf string
  | Errorf_w string error
  | Foreign string

text \<open>
  What went over the wire so far, oldest first. \<open>ApiDo req\<close> is one \<^verbatim>\<open>req.Do\<close> of an
  API request; \<open>LogChunkFetch u off\<close> is one fetch of the log at \<open>u\<close> from byte \<open>off\<close>;
  \<open>Sleep\<close> is one pause of a polling reader. Every network request of the operations
  below happens inside \<^verbatim>\<open>req.Do\<close>, and a remote answer may depend on everything
  that happened before it.
\<close>

datatype ('req, 'url) event =
    ApiDo 'req
  | LogChunkFetch 'url nat
  | Sleep

type_synonym ('req, 'url) history = "('req, 'url) event list"

fun is_LogChunkFetch :: "('req, 'url) event \<Rightarrow> bool" where
  "is_LogChunkFetch (LogChunkFetch u off) = True"
| "is_LogChunkFetch (ApiDo req) = False"
| "is_LogChunkFetch Sleep = False"

fun is_ApiDo :: "('req, 'url) event \<Rightarrow> bool" where
  "is_ApiDo (ApiDo req) = True"
| "is_ApiDo (LogChunkFetch u off) = False"
| "is_ApiDo Sleep = False"

text \<open>
  \<^verbatim>\<open>*Client\<close>, declared outside plan.go, as the operations use it:
  \<^verbatim>\<open>NewRequest(method, path, body)\<close> builds a request or fails, without any network
  traffic; \<^verbatim>\<open>req.Do(ctx, model)\<close> sends it and decodes the answer into a \<^verbatim>\<open>*Plan\<close>
  (\<open>Do_Plan\<close>) or copies the body into a \<^verbatim>\<open>*bytes.Buffer\<close> (\<open>Do_Buffer\<close>).
\<close>

record ('ctx, 'req, 'url) Client =
  NewRequest :: "string \<Rightarrow> string \<Rightarrow> string option \<Rightarrow> error + 'req"
  Do_Plan :: "'ctx \<Rightarrow> 'req \<Rightarrow> ('req, 'url) history \<Rightarrow> error + Plan"
  Do_Buffer :: "'ctx \<Rightarrow> 'req \<Rightarrow> ('req, 'url) history \<Rightarrow> error + string"

text \<open>\<^verbatim>\<open>type plans struct { client *Client }\<close>\<close>

record ('ctx, 'req, 'url) plans =
  client :: "('ctx, 'req, 'url) Client"

text \<open>
  The functions plan.go calls that are declared elsewhere: the package's
  \<^verbatim>\<open>validStringID\<close>, and \<^verbatim>\<open>url.QueryEscape\<close>, \<^verbatim>\<open>url.Parse\<close> and \<^verbatim>\<open>json.Unmarshal\<close> (into a
  \<^verbatim>\<open>PlanResourceChanges\<close>) of the standard library.
\<close>

record 'url pkg =
  validStringID :: "string \<Rightarrow> bool"
  QueryEscape :: "string \<Rightarrow> string"
  url_Parse :: "string \<Rightarrow> error + 'url"
  json_Unmarshal :: "string \<Rightarrow> error + PlanResourceChanges"

section \<open>The operations\<close>

text \<open>
  A Go result \<^verbatim>\<open>(x, err)\<close> of a pointer, interface or slice \<open>x\<close> is \<open>Inl err\<close> for
  \<^verbatim>\<open>(nil, err)\<close> and \<open>Inr x\<close> for \<^verbatim>\<open>(x, nil)\<close>. Each operation takes the history and
  returns it extended by the requests it sent.
\<close>

definition Read ::
  "'url pkg \<Rightarrow> ('ctx, 'req, 'url) plans \<Rightarrow> 'ctx \<Rightarrow> string \<Rightarrow> ('req, 'url) history \<Rightarrow>
     (error + Plan) \<times> ('req, 'url) history" where
  "Read g s ctx planID h =
     (if \<not> validStringID g planID then (Inl ErrInvalidPlanID, h)
      else
        let u = ''plans/'' @ QueryEscape g planID in
        case NewRequest (client s) ''GET'' u None of
          Inl err \<Rightarrow> (Inl err, h)
        | Inr req \<Rightarrow>
            (case Do_Plan (client s) ctx req h of
               Inl err \<Rightarrow> (Inl err, h @ [ApiDo req])
             | Inr p \<Rightarrow> (Inr p, h @ [ApiDo req])))"

text \<open>
  The closure \<^verbatim>\<open>done\<close> that \<^verbatim>\<open>Logs\<close> builds; it captures the receiver, the context and
  the plan \<open>p\<close> that \<^verbatim>\<open>Logs\<close> read. Its Go result is a pair \<^verbatim>\<open>(bool, error)\<close>.
\<close>

definition Logs_done ::
  "'url pkg \<Rightarrow> ('ctx, 'req, 'url) plans \<Rightarrow> 'ctx \<Rightarrow> Plan \<Rightarrow> ('req, 'url) history \<Rightarrow>
     (bool \<times> error option) \<times> ('req, 'url) history" where
  "Logs_done g s ctx p h =
     (case Read g s ctx (ID p) h of
        (Inl err, h') \<Rightarrow> ((False, Some err), h')
      | (Inr p', h') \<Rightarrow>
          (if Status p' = PlanCanceled \<or> Status p' = PlanErrored \<or>
              Status p' = PlanFinished \<or> Status p' = PlanUnreachable
           then ((True, None), h')
           else ((False, None), h')))"

text \<open>
  \<^verbatim>\<open>LogReader\<close> is declared outside plan.go. \<^verbatim>\<open>Logs\<close> sets four of its fields:
  \<^verbatim>\<open>client\<close>, \<^verbatim>\<open>ctx\<close>, \<^verbatim>\<open>done\<close> and \<^verbatim>\<open>logURL\<close>.

  Modelled from the spec: the rest of the \<^verbatim>\<open>LogReader\<close> struct is missing from the
  sources at hand. The spec (section 3) gives the reader "a byte offset/cursor marking
  how much of the remote log has been consumed so far, and a terminal flag once
  end-of-stream has been confirmed"; a struct literal leaves both at Go's zero value.
\<close>

record ('ctx, 'req, 'url) LogReader =
  lr_client :: "('ctx, 'req, 'url) Client"
  lr_ctx :: 'ctx
  lr_done :: "('req, 'url) history \<Rightarrow> (bool \<times> error option) \<times> ('req, 'url) history"
  lr_logURL :: 'url
  lr_offset :: nat
  lr_terminal :: bool

definition Logs ::
  "'url pkg \<Rightarrow> ('ctx, 'req, 'url) plans \<Rightarrow> 'ctx \<Rightarrow> string \<Rightarrow> ('req, 'url) history \<Rightarrow>
     (error + ('ctx, 'req, 'url) LogReader) \<times> ('req, 'url) history" where
  "Logs g s ctx planID h =
     (if \<not> validStringID g planID then (Inl ErrInvalidPlanID, h)
      else
        case Read g s ctx planID h of
          (Inl err, h') \<Rightarrow> (Inl err, h')
        | (Inr p, h') \<Rightarrow>
            (if LogReadURL p = []
             then (Inl (Errorf (''plan '' @ planID @ '' does not have a log URL'')), h')
             else
               case url_Parse g (LogReadURL p) of
                 Inl err \<Rightarrow> (Inl (Errorf_w ''invalid log URL: '' err), h')
               | Inr u \<Rightarrow>
                   (Inr \<lparr>lr_client = client s, lr_ctx = ctx,
                         lr_done = Logs_done g s ctx p, lr_logURL = u,
                         lr_offset = 0, lr_terminal = False\<rparr>, h')))"

definition ReadJSONOutput ::
  "'url pkg \<Rightarrow> ('ctx, 'req, 'url) plans \<Rightarrow> 'ctx \<Rightarrow> string \<Rightarrow> ('req, 'url) history \<Rightarrow>
     (error + string) \<times> ('req, 'url) history" where
  "ReadJSONOutput g s ctx planID h =
     (if \<not> validStringID g planID then (Inl ErrInvalidPlanID, h)
      else
        let u = ''plans/'' @ QueryEscape g planID @ ''/json-output'' in
        case NewRequest (client s) ''GET'' u None of
          Inl err \<Rightarrow> (Inl err, h)
        | Inr req \<Rightarrow>
            (case Do_Buffer (client s) ctx req h of
               Inl err \<Rightarrow> (Inl err, h @ [ApiDo req])
             | Inr buf \<Rightarrow> (Inr buf, h @ [ApiDo req])))"

definition ReadResourceChanges ::
  "'url pkg \<Rightarrow> ('ctx, 'req, 'url) plans \<Rightarrow> 'ctx \<Rightarrow> string \<Rightarrow> ('req, 'url) history \<Rightarrow>
     (error + PlanResourceChanges) \<times> ('req, 'url) history" where
  "ReadResourceChanges g s ctx planID h =
     (if \<not> validStringID g planID then (Inl ErrInvalidPlanID, h)
      else
        let u = ''plans/'' @ QueryEscape g planID @ ''/json-output-redacted'' in
        case NewRequest (client s) ''GET'' u None of
          Inl err \<Rightarrow> (Inl err, h)
        | Inr req \<Rightarrow>
            (case Do_Buffer (client s) ctx req h of
               Inl err \<Rightarrow> (Inl err, h @ [ApiDo req])
             | Inr buf \<Rightarrow>
                 (case json_Unmarshal g buf of
                    Inl err \<Rightarrow> (Inl err, h @ [ApiDo req])
                  | Inr resourceChanges \<Rightarrow> (Inr resourceChanges, h @ [ApiDo req]))))"

section \<open>The log stream reader\<close>

text \<open>
  Modelled from the spec: \<^verbatim>\<open>LogReader\<close>'s read method is missing from the sources at
  hand; what follows is section 4.2 of the spec, with the collaborators of its
  sections 5 and 6. \<open>fetchRange\<close> is "\<^verbatim>\<open>fetchRange(url, offset) -> bytes | TransportError\<close>",
  given the context since the fetch "must observe caller-supplied cancellation";
  \<open>ctx_Err\<close> is what the context reports when the reader is about to pause (\<open>None\<close>: not
  cancelled).
\<close>

record ('ctx, 'req, 'url) stream_env =
  fetchRange :: "'ctx \<Rightarrow> 'url \<Rightarrow> nat \<Rightarrow> ('req, 'url) history \<Rightarrow> error + string"
  ctx_Err :: "'ctx \<Rightarrow> ('req, 'url) history \<Rightarrow> error option"

text \<open>
  Modelled from the spec: the outcome of one read. \<open>Bytes bs\<close> is "the number of bytes
  copied into the caller-supplied buffer", given as the bytes themselves; \<open>EndOfStream\<close>
  is the "distinguished end of stream signal"; \<open>Failed err\<close> is an error surfaced to the
  caller.
\<close>

datatype read_result =
    Bytes string
  | EndOfStream
  | Failed error

text \<open>
  Modelled from the spec: the polling loop of one read (steps 2 to 5 of section 4.2).
  Fetch from the current offset; deliver a non-empty chunk at once and advance the offset
  by its length; on an empty chunk ask the completion oracle: an oracle error is
  propagated, a terminal job sets the terminal flag and ends the stream, a job still
  running makes the reader pause (unless cancelled) and try again. The loop ends only
  when the remote lets it, so it runs on fuel: \<open>None\<close> is a read that has not returned
  after \<open>n\<close> rounds.
\<close>

fun read_poll ::
  "nat \<Rightarrow> ('ctx, 'req, 'url) stream_env \<Rightarrow> ('ctx, 'req, 'url) LogReader \<Rightarrow>
     ('req, 'url) history \<Rightarrow>
     (read_result \<times> ('ctx, 'req, 'url) LogReader \<times> ('req, 'url) history) option" where
  "read_poll 0 e r h = None"
| "read_poll (Suc n) e r h =
     (let h1 = h @ [LogChunkFetch (lr_logURL r) (lr_offset r)] in
      case fetchRange e (lr_ctx r) (lr_logURL r) (lr_offset r) h of
        Inl err \<Rightarrow> Some (Failed err, r, h1)
      | Inr bs \<Rightarrow>
          (let r1 = r\<lparr>lr_offset := lr_offset r + length bs\<rparr> in
           if bs \<noteq> [] then Some (Bytes bs, r1, h1)
           else
             case lr_done r h1 of
               ((d, Some err), h2) \<Rightarrow> Some (Failed err, r1, h2)
             | ((d, None), h2) \<Rightarrow>
                 (if d then Some (EndOfStream, r1\<lparr>lr_terminal := True\<rparr>, h2)
                  else
                    case ctx_Err e (lr_ctx r) h2 of
                      Some err \<Rightarrow> Some (Failed err, r1, h2)
                    | None \<Rightarrow> read_poll n e r1 (h2 @ [Sleep]))))"

text \<open>
  Modelled from the spec: one read (step 1 of section 4.2, then the loop). "On each
  read call, first check whether the terminal flag is already set; if so, immediately
  return end-of-stream."
\<close>

definition LogReader_Read ::
  "nat \<Rightarrow> ('ctx, 'req, 'url) stream_env \<Rightarrow> ('ctx, 'req, 'url) LogReader \<Rightarrow>
     ('req, 'url) history \<Rightarrow>
     (read_result \<times> ('ctx, 'req, 'url) LogReader \<times> ('req, 'url) history) option" where
  "LogReader_Read n e r h =
     (if lr_terminal r then Some (EndOfStream, r, h) else read_poll n e r h)"

text \<open>
  \<open>k\<close> calls in a row of a closure of \<^verbatim>\<open>done\<close>'s type: the answers, oldest first, and the
  history after the last call.
\<close>

fun call_times ::
  "nat \<Rightarrow> (('req, 'url) history \<Rightarrow> (bool \<times> error option) \<times> ('req, 'url) history) \<Rightarrow>
     ('req, 'url) history \<Rightarrow> (bool \<times> error option) list \<times> ('req, 'url) history" where
  "call_times 0 d h = ([], h)"
| "call_times (Suc k) d h =
     (case d h of (a, h') \<Rightarrow> (case call_times k d h' of (as, h'') \<Rightarrow> (a # as, h'')))"

section \<open>A scripted remote\<close>

text \<open>
  A plan \<^verbatim>\<open>run-abc\<close> served by a remote whose answers follow the history: the plan is
  running for the first two status reads and finished from the third; its log holds
  one chunk until the first fetch was served and two chunks after. Requests are
  their paths, URLs their text. Beside it: \<^verbatim>\<open>run-nolog\<close> has no log URL, \<^verbatim>\<open>run-badurl\<close>
  a log URL that does not parse, \<^verbatim>\<open>run-gone\<close> is served once and not found
  afterwards, and the record served for \<^verbatim>\<open>run-noid\<close> carries no identifier.
\<close>

definition run_abc :: "PlanStatus \<Rightarrow> Plan" where
  "run_abc st =
     \<lparr>ID = ''run-abc'', HasChanges = True, GeneratedConfiguration = False,
      LogReadURL = ''https://logs.example/run-abc'', ResourceAdditions = 1,
      ResourceChanges = 0, ResourceDestructions = 0, ResourceImports = 0, Status = st\<rparr>"

definition remote_plan :: "string \<Rightarrow> (string, string) history \<Rightarrow> error + Plan" where
  "remote_plan req h =
     (if req = ''plans/run-abc''
      then Inr (run_abc (if length (filter is_ApiDo h) < 2 then PlanRunning else PlanFinished))
      else if req = ''plans/run-nolog''
      then Inr ((run_abc PlanPending)\<lparr>ID := ''run-nolog'', LogReadURL := []\<rparr>)
      else if req = ''plans/run-badurl''
      then Inr ((run_abc PlanPending)\<lparr>ID := ''run-badurl'', LogReadURL := ''ht tp://logs''\<rparr>)
      else if req = ''plans/run-gone'' \<and> filter is_ApiDo h = []
      then Inr ((run_abc PlanRunning)\<lparr>ID := ''run-gone''\<rparr>)
      else if req = ''plans/run-noid''
      then Inr ((run_abc PlanRunning)\<lparr>ID := []\<rparr>)
      else Inl (Foreign ''resource not found''))"

definition remote_body :: "string \<Rightarrow> (string, string) history \<Rightarrow> error + string" where
  "remote_body req h =
     (if req = ''plans/run-abc/json-output'' then Inr ''{''
      else if req = ''plans/run-abc/json-output-redacted'' then Inr ''not json''
      else Inl (Foreign ''resource not found''))"

definition remote_client :: "(unit, string, string) Client" where
  "remote_client =
     \<lparr>NewRequest = (\<lambda>method path body. Inr path),
      Do_Plan = (\<lambda>ctx. remote_plan),
      Do_Buffer = (\<lambda>ctx. remote_body)\<rparr>"

definition remote_plans :: "(unit, string, string) plans" where
  "remote_plans = \<lparr>client = remote_client\<rparr>"

definition remote_pkg :: "string pkg" where
  "remote_pkg =
     \<lparr>validStringID = (\<lambda>v. v \<noteq> [] \<and> CHR ''/'' \<notin> set v \<and> CHR '' '' \<notin> set v),
      QueryEscape = (\<lambda>v. v),
      url_Parse = (\<lambda>v. if CHR '' '' \<in> set v then Inl (Foreign ''invalid character in URL'')
                        else Inr v),
      json_Unmarshal = (\<lambda>b. if b = ''{}'' then Inr \<lparr>ResourceChanges = []\<rparr>
                             else Inl (Foreign ''invalid character''))\<rparr>"

definition remote_log :: "(string, string) history \<Rightarrow> string" where
  "remote_log h =
     (if filter is_LogChunkFetch h = [] then ''Initializing...''
      else ''Initializing...Apply complete.'')"

definition remote_env :: "(unit, string, string) stream_env" where
  "remote_env =
     \<lparr>fetchRange = (\<lambda>ctx u off h. Inr (drop off (remote_log h))),
      ctx_Err = (\<lambda>ctx h. None)\<rparr>"

text \<open>The reader that \<^verbatim>\<open>Logs\<close> builds from a plan record \<open>p\<close> of this remote.\<close>

definition remote_reader :: "Plan \<Rightarrow> (unit, string, string) LogReader" where
  "remote_reader p =
     \<lparr>lr_client = remote_client, lr_ctx = (),
      lr_done = Logs_done remote_pkg remote_plans () p,
      lr_logURL = ''https://logs.example/run-abc'', lr_offset = 0, lr_terminal = False\<rparr>"

section \<open>Properties\<close>

lemma Logs_reader:
  assumes "Logs g s ctx planID h = (Inr r, h')"
  shows "\<exists>p u. Read g s ctx planID h = (Inr p, h') \<and> LogReadURL p \<noteq> [] \<and>
           url_Parse g (LogReadURL p) = Inr u \<and>
           r = \<lparr>lr_client = client s, lr_ctx = ctx, lr_done = Logs_done g s ctx p,
                lr_logURL = u, lr_offset = 0, lr_terminal = False\<rparr>"
  using assms
  by (auto simp: Logs_def split: if_splits sum.splits prod.splits)

lemma Read_history:
  assumes "Read g s ctx planID h = (res, h')"
  shows "h' = h \<or> (\<exists>req. h' = h @ [ApiDo req])"
  using assms
  by (auto simp: Read_def Let_def split: if_splits sum.splits)

lemma Read_valid:
  assumes "Read g s ctx planID h = (Inr p, h')"
  shows "validStringID g planID"
  using assms
  by (auto simp: Read_def Let_def split: if_splits sum.splits)

lemma Logs_closure:
  assumes "Logs g s ctx planID h0 = (Inr r, h1)" and "Read g s ctx planID h0 = (Inr p, h1)"
  shows "lr_done r = Logs_done g s ctx p"
  using assms
  by (auto simp: Logs_def split: if_splits sum.splits prod.splits)

lemmas terminal_defs = PlanCanceled_def PlanErrored_def PlanFinished_def PlanUnreachable_def

text \<open>
  Claim C1. When the read of the plan record inside the closure \<^verbatim>\<open>done\<close> of a reader
  built by \<^verbatim>\<open>Logs\<close> succeeds with the record \<open>q\<close>, the closure answers \<^verbatim>\<open>(true, nil)\<close>
  exactly when the status of \<open>q\<close> is one of finished, errored, canceled and
  unreachable, and \<^verbatim>\<open>(false, nil)\<close> for every other status.
\<close>

theorem done_classifies_status:
  assumes "Logs g s ctx planID h0 = (Inr r, h1)"
    and "Read g s ctx planID h0 = (Inr p, h1)"
    and "Read g s ctx (ID p) h = (Inr q, h')"
  shows "lr_done r h =
           ((Status q \<in> {''finished'', ''errored'', ''canceled'', ''unreachable''}, None), h')"
proof -
  have "lr_done r = Logs_done g s ctx p"
    using assms(1,2) by (rule Logs_closure)
  then show ?thesis
    using assms(3) by (auto simp: Logs_done_def terminal_defs)
qed

lemmas remote_defs = remote_pkg_def remote_plans_def remote_client_def remote_plan_def
  remote_body_def run_abc_def remote_reader_def Read_def Logs_def Let_def

lemma remote_Logs:
  "Logs remote_pkg remote_plans () ''run-abc'' [] =
     (Inr (remote_reader (run_abc PlanRunning)), [ApiDo ''plans/run-abc''])"
  by (simp add: remote_defs)

lemma remote_Read:
  "Read remote_pkg remote_plans () ''run-abc'' [] =
     (Inr (run_abc PlanRunning), [ApiDo ''plans/run-abc''])"
  by (simp add: remote_defs)

text \<open>The third status read of \<^verbatim>\<open>run-abc\<close> finds the plan finished.\<close>

theorem done_classifies_status_witness:
  "Logs remote_pkg remote_plans () ''run-abc'' [] =
     (Inr (remote_reader (run_abc PlanRunning)), [ApiDo ''plans/run-abc'']) \<and>
   Read remote_pkg remote_plans () ''run-abc'' [] =
     (Inr (run_abc PlanRunning), [ApiDo ''plans/run-abc'']) \<and>
   Read remote_pkg remote_plans () (ID (run_abc PlanRunning))
       [ApiDo ''plans/run-abc'', ApiDo ''plans/run-abc''] =
     (Inr (run_abc PlanFinished),
      [ApiDo ''plans/run-abc'', ApiDo ''plans/run-abc'', ApiDo ''plans/run-abc'']) \<and>
   lr_done (remote_reader (run_abc PlanRunning))
       [ApiDo ''plans/run-abc'', ApiDo ''plans/run-abc''] =
     ((True, None), [ApiDo ''plans/run-abc'', ApiDo ''plans/run-abc'', ApiDo ''plans/run-abc''])"
proof -
  have a: "Logs remote_pkg remote_plans () ''run-abc'' [] =
     (Inr (remote_reader (run_abc PlanRunning)), [ApiDo ''plans/run-abc''])"
    by (rule remote_Logs)
  have b: "Read remote_pkg remote_plans () ''run-abc'' [] =
     (Inr (run_abc PlanRunning), [ApiDo ''plans/run-abc''])"
    by (rule remote_Read)
  have c: "Read remote_pkg remote_plans () (ID (run_abc PlanRunning))
       [ApiDo ''plans/run-abc'', ApiDo ''plans/run-abc''] =
     (Inr (run_abc PlanFinished),
      [ApiDo ''plans/run-abc'', ApiDo ''plans/run-abc'', ApiDo ''plans/run-abc''])"
    by (simp add: remote_defs)
  have "Status (run_abc PlanFinished) \<in> {''finished'', ''errored'', ''canceled'', ''unreachable''}"
    by (simp add: run_abc_def PlanFinished_def)
  with done_classifies_status [OF a b c] a b c show ?thesis
    by simp
qed

text \<open>
  Claim C5. When the read of the plan record inside the closure \<^verbatim>\<open>done\<close> fails with
  the error \<open>e\<close>, the closure answers \<^verbatim>\<open>(false, e)\<close>: the error reaches the caller as
  it is, after that one read (at most one request more in the history) and no other.
\<close>

theorem done_propagates_error:
  assumes "Logs g s ctx planID h0 = (Inr r, h1)"
    and "Read g s ctx planID h0 = (Inr p, h1)"
    and "Read g s ctx (ID p) h = (Inl e, h')"
  shows "lr_done r h = ((False, Some e), h') \<and> length h' \<le> Suc (length h)"
proof -
  have "lr_done r = Logs_done g s ctx p"
    using assms(1,2) by (rule Logs_closure)
  then have "lr_done r h = ((False, Some e), h')"
    using assms(3) by (simp add: Logs_done_def)
  moreover have "length h' \<le> Suc (length h)"
    using Read_history [OF assms(3)] by auto
  ultimately show ?thesis by simp
qed

text \<open>The plan \<^verbatim>\<open>run-gone\<close> is not found when the closure reads it again.\<close>

theorem done_propagates_error_witness:
  "Logs remote_pkg remote_plans () ''run-gone'' [] =
     (Inr (remote_reader ((run_abc PlanRunning)\<lparr>ID := ''run-gone''\<rparr>)), [ApiDo ''plans/run-gone'']) \<and>
   Read remote_pkg remote_plans () ''run-gone'' [] =
     (Inr ((run_abc PlanRunning)\<lparr>ID := ''run-gone''\<rparr>), [ApiDo ''plans/run-gone'']) \<and>
   Read remote_pkg remote_plans () (ID ((run_abc PlanRunning)\<lparr>ID := ''run-gone''\<rparr>))
       [ApiDo ''plans/run-gone''] =
     (Inl (Foreign ''resource not found''), [ApiDo ''plans/run-gone'', ApiDo ''plans/run-gone'']) \<and>
   lr_done (remote_reader ((run_abc PlanRunning)\<lparr>ID := ''run-gone''\<rparr>)) [ApiDo ''plans/run-gone''] =
     ((False, Some (Foreign ''resource not found'')),
      [ApiDo ''plans/run-gone'', ApiDo ''plans/run-gone''])"
proof -
  have a: "Logs remote_pkg remote_plans () ''run-gone'' [] =
     (Inr (remote_reader ((run_abc PlanRunning)\<lparr>ID := ''run-gone''\<rparr>)), [ApiDo ''plans/run-gone''])"
    by (simp add: remote_defs)
  have b: "Read remote_pkg remote_plans () ''run-gone'' [] =
     (Inr ((run_abc PlanRunning)\<lparr>ID := ''run-gone''\<rparr>), [ApiDo ''plans/run-gone''])"
    by (simp add: remote_defs)
  have c: "Read remote_pkg remote_plans () (ID ((run_abc PlanRunning)\<lparr>ID := ''run-gone''\<rparr>))
       [ApiDo ''plans/run-gone''] =
     (Inl (Foreign ''resource not found''), [ApiDo ''plans/run-gone'', ApiDo ''plans/run-gone''])"
    by (simp add: remote_defs)
  from done_propagates_error [OF a b c] a b c show ?thesis
    by simp
qed

text \<open>
  Claim C4. For a plan identifier that \<^verbatim>\<open>validStringID\<close> rejects, each of \<^verbatim>\<open>Read\<close>,
  \<^verbatim>\<open>Logs\<close>, \<^verbatim>\<open>ReadJSONOutput\<close> and \<^verbatim>\<open>ReadResourceChanges\<close> returns no result and
  \<^verbatim>\<open>ErrInvalidPlanID\<close>, and the history is left as it was: no request was attempted.
\<close>

theorem invalid_plan_id_rejected:
  assumes "\<not> validStringID g planID"
  shows "Read g s ctx planID h = (Inl ErrInvalidPlanID, h) \<and>
         Logs g s ctx planID h = (Inl ErrInvalidPlanID, h) \<and>
         ReadJSONOutput g s ctx planID h = (Inl ErrInvalidPlanID, h) \<and>
         ReadResourceChanges g s ctx planID h = (Inl ErrInvalidPlanID, h)"
  using assms
  by (simp add: Read_def Logs_def ReadJSONOutput_def ReadResourceChanges_def)

text \<open>An identifier with a slash.\<close>

theorem invalid_plan_id_rejected_witness:
  "\<not> validStringID remote_pkg ''run/abc'' \<and>
   Read remote_pkg remote_plans () ''run/abc'' [] = (Inl ErrInvalidPlanID, []) \<and>
   Logs remote_pkg remote_plans () ''run/abc'' [] = (Inl ErrInvalidPlanID, []) \<and>
   ReadJSONOutput remote_pkg remote_plans () ''run/abc'' [] = (Inl ErrInvalidPlanID, []) \<and>
   ReadResourceChanges remote_pkg remote_plans () ''run/abc'' [] = (Inl ErrInvalidPlanID, [])"
proof -
  have a: "\<not> validStringID remote_pkg ''run/abc''"
    by (simp add: remote_pkg_def)
  from invalid_plan_id_rejected [OF a, of remote_plans "()" "[]"] a show ?thesis
    by simp
qed

text \<open>
  Claim C3. When the plan record is read successfully and its log URL is empty, \<^verbatim>\<open>Logs\<close>
  returns no reader and the error "plan ... does not have a log URL"; the history is
  the one the read of the record left, and no fetch of a log chunk entered it.
\<close>

theorem logs_missing_log_url:
  assumes "Read g s ctx planID h = (Inr p, h')" and "LogReadURL p = []"
  shows "Logs g s ctx planID h =
           (Inl (Errorf (''plan '' @ planID @ '' does not have a log URL'')), h') \<and>
         filter is_LogChunkFetch h' = filter is_LogChunkFetch h"
proof -
  have "validStringID g planID"
    using assms(1) by (rule Read_valid)
  then have "Logs g s ctx planID h =
           (Inl (Errorf (''plan '' @ planID @ '' does not have a log URL'')), h')"
    using assms by (simp add: Logs_def)
  moreover have "filter is_LogChunkFetch h' = filter is_LogChunkFetch h"
    using Read_history [OF assms(1)] by auto
  ultimately show ?thesis by simp
qed

text \<open>The plan \<^verbatim>\<open>run-nolog\<close>.\<close>

theorem logs_missing_log_url_witness:
  "Read remote_pkg remote_plans () ''run-nolog'' [] =
     (Inr ((run_abc PlanPending)\<lparr>ID := ''run-nolog'', LogReadURL := []\<rparr>),
      [ApiDo ''plans/run-nolog'']) \<and>
   LogReadURL ((run_abc PlanPending)\<lparr>ID := ''run-nolog'', LogReadURL := []\<rparr>) = [] \<and>
   Logs remote_pkg remote_plans () ''run-nolog'' [] =
     (Inl (Errorf ''plan run-nolog does not have a log URL''), [ApiDo ''plans/run-nolog''])"
proof -
  have a: "Read remote_pkg remote_plans () ''run-nolog'' [] =
     (Inr ((run_abc PlanPending)\<lparr>ID := ''run-nolog'', LogReadURL := []\<rparr>),
      [ApiDo ''plans/run-nolog''])"
    by (simp add: remote_defs)
  have b: "LogReadURL ((run_abc PlanPending)\<lparr>ID := ''run-nolog'', LogReadURL := []\<rparr>) = []"
    by simp
  from logs_missing_log_url [OF a b] a b show ?thesis
    by simp
qed

text \<open>
  Claim C10. When the plan record is read successfully and its log URL is not empty but
  \<^verbatim>\<open>url.Parse\<close> fails on it with \<open>e\<close>, \<^verbatim>\<open>Logs\<close> returns no reader and the error
  "invalid log URL: " wrapping \<open>e\<close>; the history is the one the read of the record left,
  and no fetch of a log chunk entered it.
\<close>

theorem logs_unparsable_log_url:
  assumes "Read g s ctx planID h = (Inr p, h')" and "LogReadURL p \<noteq> []"
    and "url_Parse g (LogReadURL p) = Inl e"
  shows "Logs g s ctx planID h = (Inl (Errorf_w ''invalid log URL: '' e), h') \<and>
         filter is_LogChunkFetch h' = filter is_LogChunkFetch h"
proof -
  have "validStringID g planID"
    using assms(1) by (rule Read_valid)
  then have "Logs g s ctx planID h = (Inl (Errorf_w ''invalid log URL: '' e), h')"
    using assms by (simp add: Logs_def)
  moreover have "filter is_LogChunkFetch h' = filter is_LogChunkFetch h"
    using Read_history [OF assms(1)] by auto
  ultimately show ?thesis by simp
qed

text \<open>The plan \<^verbatim>\<open>run-badurl\<close>, whose log URL holds a space.\<close>

theorem logs_unparsable_log_url_witness:
  "Read remote_pkg remote_plans () ''run-badurl'' [] =
     (Inr ((run_abc PlanPending)\<lparr>ID := ''run-badurl'', LogReadURL := ''ht tp://logs''\<rparr>),
      [ApiDo ''plans/run-badurl'']) \<and>
   LogReadURL ((run_abc PlanPending)\<lparr>ID := ''run-badurl'', LogReadURL := ''ht tp://logs''\<rparr>) \<noteq> [] \<and>
   url_Parse remote_pkg
       (LogReadURL ((run_abc PlanPending)\<lparr>ID := ''run-badurl'', LogReadURL := ''ht tp://logs''\<rparr>)) =
     Inl (Foreign ''invalid character in URL'') \<and>
   Logs remote_pkg remote_plans () ''run-badurl'' [] =
     (Inl (Errorf_w ''invalid log URL: '' (Foreign ''invalid character in URL'')),
      [ApiDo ''plans/run-badurl''])"
proof -
  have a: "Read remote_pkg remote_plans () ''run-badurl'' [] =
     (Inr ((run_abc PlanPending)\<lparr>ID := ''run-badurl'', LogReadURL := ''ht tp://logs''\<rparr>),
      [ApiDo ''plans/run-badurl''])"
    by (simp add: remote_defs)
  have b: "LogReadURL ((run_abc PlanPending)\<lparr>ID := ''run-badurl'', LogReadURL := ''ht tp://logs''\<rparr>) \<noteq> []"
    by simp
  have c: "url_Parse remote_pkg
       (LogReadURL ((run_abc PlanPending)\<lparr>ID := ''run-badurl'', LogReadURL := ''ht tp://logs''\<rparr>)) =
     Inl (Foreign ''invalid character in URL'')"
    by (simp add: remote_pkg_def)
  from logs_unparsable_log_url [OF a b c] a b c show ?thesis
    by simp
qed

lemma Logs_done_history:
  assumes "Logs_done g s ctx p h = (a, h')"
  shows "\<exists>ev. h' = h @ ev"
proof -
  obtain res h1 where rd: "Read g s ctx (ID p) h = (res, h1)"
    by (metis surj_pair)
  with assms have "h' = h1"
    by (auto simp: Logs_done_def split: sum.splits if_splits)
  with Read_history [OF rd] show ?thesis
    by auto
qed

lemma read_poll_EndOfStream:
  assumes "read_poll n e r h = Some (EndOfStream, r', h')"
    and "lr_done r = Logs_done g s ctx p"
  shows "\<exists>hs. fetchRange e (lr_ctx r) (lr_logURL r) (lr_offset r) (h @ hs) = Inr [] \<and>
           lr_done r (h @ hs @ [LogChunkFetch (lr_logURL r) (lr_offset r)]) = ((True, None), h') \<and>
           r' = r\<lparr>lr_terminal := True\<rparr>"
  using assms(1)
proof (induction n arbitrary: h)
  case 0
  then show ?case by simp
next
  case (Suc n)
  let ?f = "LogChunkFetch (lr_logURL r) (lr_offset r)"
  from Suc.prems obtain bs where
    bs: "fetchRange e (lr_ctx r) (lr_logURL r) (lr_offset r) h = Inr bs"
    by (auto simp: Let_def split: sum.splits)
  with Suc.prems have empty: "bs = []"
    by (auto simp: Let_def split: if_splits)
  obtain d oerr h2 where dn: "lr_done r (h @ [?f]) = ((d, oerr), h2)"
    by (metis surj_pair)
  with Suc.prems bs empty have noerr: "oerr = None"
    by (auto simp: Let_def split: option.splits)
  show ?case
  proof (cases d)
    case True
    with Suc.prems bs empty dn noerr have "h' = h2" and "r' = r\<lparr>lr_terminal := True\<rparr>"
      by (auto simp: Let_def)
    with bs empty dn noerr True
    have "fetchRange e (lr_ctx r) (lr_logURL r) (lr_offset r) (h @ []) = Inr [] \<and>
          lr_done r (h @ [] @ [?f]) = ((True, None), h') \<and> r' = r\<lparr>lr_terminal := True\<rparr>"
      by simp
    then show ?thesis by blast
  next
    case False
    with Suc.prems bs empty dn noerr
    have rec: "read_poll n e r (h2 @ [Sleep]) = Some (EndOfStream, r', h')"
      by (auto simp: Let_def split: option.splits)
    from dn assms(2) obtain ev where ev: "h2 = (h @ [?f]) @ ev"
      using Logs_done_history by metis
    from Suc.IH [OF rec] obtain hs where
      hs: "fetchRange e (lr_ctx r) (lr_logURL r) (lr_offset r) ((h2 @ [Sleep]) @ hs) = Inr []"
          "lr_done r ((h2 @ [Sleep]) @ hs @ [?f]) = ((True, None), h')"
          "r' = r\<lparr>lr_terminal := True\<rparr>"
      by auto
    have "(h2 @ [Sleep]) @ hs = h @ (?f # ev @ Sleep # hs)"
      and "(h2 @ [Sleep]) @ hs @ [?f] = h @ (?f # ev @ Sleep # hs) @ [?f]"
      using ev by simp_all
    with hs show ?thesis
      by metis
  qed
qed

lemma read_poll_Bytes:
  assumes "fetchRange e (lr_ctx r) (lr_logURL r) (lr_offset r) h = Inr bs" and "bs \<noteq> []"
  shows "read_poll (Suc n) e r h =
           Some (Bytes bs, r\<lparr>lr_offset := lr_offset r + length bs\<rparr>,
                 h @ [LogChunkFetch (lr_logURL r) (lr_offset r)])"
  using assms by (simp add: Let_def)

text \<open>
  A read changes the offset and the terminal flag of a reader and nothing else, and the
  offset never goes back: every later state of a reader built by \<^verbatim>\<open>Logs\<close> still
  carries the closure \<^verbatim>\<open>done\<close> that \<^verbatim>\<open>Logs\<close> gave it.
\<close>

lemma read_poll_reader:
  assumes "read_poll n e r h = Some (x, r', h')"
  shows "lr_done r' = lr_done r \<and> lr_logURL r' = lr_logURL r \<and> lr_ctx r' = lr_ctx r \<and>
         lr_client r' = lr_client r \<and> lr_offset r \<le> lr_offset r'"
  using assms
proof (induction n arbitrary: r h)
  case 0
  then show ?case by simp
next
  case (Suc n)
  show ?case
  proof (cases "read_poll n e (r\<lparr>lr_offset := lr_offset r + length ([]::string)\<rparr>)
      (snd (lr_done r (h @ [LogChunkFetch (lr_logURL r) (lr_offset r)])) @ [Sleep]) =
      Some (x, r', h')")
    case True
    from Suc.IH [OF True] show ?thesis
      by simp
  next
    case False
    with Suc.prems show ?thesis
      by (auto simp: Let_def split: sum.splits if_splits option.splits prod.splits)
  qed
qed

lemma LogReader_Read_reader:
  assumes "LogReader_Read n e r h = Some (x, r', h')"
  shows "lr_done r' = lr_done r \<and> lr_logURL r' = lr_logURL r \<and> lr_ctx r' = lr_ctx r \<and>
         lr_client r' = lr_client r \<and> lr_offset r \<le> lr_offset r'"
proof (cases "lr_terminal r")
  case True
  with assms show ?thesis
    by (simp add: LogReader_Read_def)
next
  case False
  with assms have "read_poll n e r h = Some (x, r', h')"
    by (simp add: LogReader_Read_def)
  then show ?thesis
    by (rule read_poll_reader)
qed

text \<open>
  Claim C2. Take a reader whose completion check is the closure \<^verbatim>\<open>done\<close> of \<^verbatim>\<open>Logs\<close>
  and whose terminal flag is not set. If a read ends the stream, then in the round
  that ended it the fetch at the reader's offset returned no bytes and the completion
  check asked right after that fetch answered \<^verbatim>\<open>(true, nil)\<close>; the read sets the flag and
  changes nothing else. If the fetch at the reader's offset returns a chunk that is not
  empty, the read returns that chunk, whatever the status of the plan: a chunk that is
  still there after the plan became terminal is delivered before the stream ends. (A
  read that finds the flag set repeats the end of stream without any fetch.)
\<close>

theorem end_of_stream_after_empty_fetch_and_terminal:
  assumes "\<not> lr_terminal r" and "lr_done r = Logs_done g s ctx p"
  shows "(LogReader_Read n e r h = Some (EndOfStream, r', h') \<longrightarrow>
            (\<exists>hs. fetchRange e (lr_ctx r) (lr_logURL r) (lr_offset r) (h @ hs) = Inr [] \<and>
                  lr_done r (h @ hs @ [LogChunkFetch (lr_logURL r) (lr_offset r)]) =
                    ((True, None), h') \<and>
                  r' = r\<lparr>lr_terminal := True\<rparr>)) \<and>
         (fetchRange e (lr_ctx r) (lr_logURL r) (lr_offset r) h = Inr bs \<and> bs \<noteq> [] \<longrightarrow>
            LogReader_Read (Suc n) e r h =
              Some (Bytes bs, r\<lparr>lr_offset := lr_offset r + length bs\<rparr>,
                    h @ [LogChunkFetch (lr_logURL r) (lr_offset r)]))"
proof (intro conjI impI)
  assume "LogReader_Read n e r h = Some (EndOfStream, r', h')"
  with assms(1) have "read_poll n e r h = Some (EndOfStream, r', h')"
    by (simp add: LogReader_Read_def)
  then show "\<exists>hs. fetchRange e (lr_ctx r) (lr_logURL r) (lr_offset r) (h @ hs) = Inr [] \<and>
                  lr_done r (h @ hs @ [LogChunkFetch (lr_logURL r) (lr_offset r)]) =
                    ((True, None), h') \<and>
                  r' = r\<lparr>lr_terminal := True\<rparr>"
    using assms(2) by (rule read_poll_EndOfStream)
next
  assume "fetchRange e (lr_ctx r) (lr_logURL r) (lr_offset r) h = Inr bs \<and> bs \<noteq> []"
  then have "read_poll (Suc n) e r h =
           Some (Bytes bs, r\<lparr>lr_offset := lr_offset r + length bs\<rparr>,
                 h @ [LogChunkFetch (lr_logURL r) (lr_offset r)])"
    by (simp add: read_poll_Bytes)
  with assms(1) show "LogReader_Read (Suc n) e r h =
              Some (Bytes bs, r\<lparr>lr_offset := lr_offset r + length bs\<rparr>,
                    h @ [LogChunkFetch (lr_logURL r) (lr_offset r)])"
    by (simp add: LogReader_Read_def)
qed

lemmas stream_defs = LogReader_Read_def remote_env_def remote_log_def remote_reader_def
  Logs_done_def Read_def remote_pkg_def remote_plans_def remote_client_def remote_plan_def
  run_abc_def PlanRunning_def PlanFinished_def PlanCanceled_def PlanErrored_def
  PlanUnreachable_def Let_def

text \<open>
  The third read of \<^verbatim>\<open>run-abc\<close> ends the stream in its second round; and with the plan
  already finished and the second chunk not yet read, a read returns the chunk.
\<close>

theorem end_of_stream_after_empty_fetch_and_terminal_witness:
  "\<not> lr_terminal ((remote_reader (run_abc PlanRunning))\<lparr>lr_offset := 30\<rparr>) \<and>
   lr_done ((remote_reader (run_abc PlanRunning))\<lparr>lr_offset := 30\<rparr>) =
     Logs_done remote_pkg remote_plans () (run_abc PlanRunning) \<and>
   LogReader_Read 2 remote_env ((remote_reader (run_abc PlanRunning))\<lparr>lr_offset := 30\<rparr>)
       [ApiDo ''plans/run-abc'', LogChunkFetch ''https://logs.example/run-abc'' 0,
        LogChunkFetch ''https://logs.example/run-abc'' 15] =
     Some (EndOfStream,
           (remote_reader (run_abc PlanRunning))\<lparr>lr_offset := 30, lr_terminal := True\<rparr>,
           [ApiDo ''plans/run-abc'', LogChunkFetch ''https://logs.example/run-abc'' 0,
            LogChunkFetch ''https://logs.example/run-abc'' 15,
            LogChunkFetch ''https://logs.example/run-abc'' 30, ApiDo ''plans/run-abc'', Sleep,
            LogChunkFetch ''https://logs.example/run-abc'' 30, ApiDo ''plans/run-abc'']) \<and>
   (\<exists>hs. fetchRange remote_env () ''https://logs.example/run-abc'' 30
            ([ApiDo ''plans/run-abc'', LogChunkFetch ''https://logs.example/run-abc'' 0,
              LogChunkFetch ''https://logs.example/run-abc'' 15] @ hs) = Inr [] \<and>
         fst (lr_done ((remote_reader (run_abc PlanRunning))\<lparr>lr_offset := 30\<rparr>)
            ([ApiDo ''plans/run-abc'', LogChunkFetch ''https://logs.example/run-abc'' 0,
              LogChunkFetch ''https://logs.example/run-abc'' 15] @ hs @
             [LogChunkFetch ''https://logs.example/run-abc'' 30])) = (True, None)) \<and>
   fetchRange remote_env () ''https://logs.example/run-abc'' 15
       [ApiDo ''plans/run-abc'', ApiDo ''plans/run-abc'', ApiDo ''plans/run-abc'',
        LogChunkFetch ''https://logs.example/run-abc'' 0] = Inr ''Apply complete.'' \<and>
   fst (lr_done ((remote_reader (run_abc PlanRunning))\<lparr>lr_offset := 15\<rparr>)
       [ApiDo ''plans/run-abc'', ApiDo ''plans/run-abc'', ApiDo ''plans/run-abc'',
        LogChunkFetch ''https://logs.example/run-abc'' 0]) = (True, None) \<and>
   LogReader_Read 1 remote_env ((remote_reader (run_abc PlanRunning))\<lparr>lr_offset := 15\<rparr>)
       [ApiDo ''plans/run-abc'', ApiDo ''plans/run-abc'', ApiDo ''plans/run-abc'',
        LogChunkFetch ''https://logs.example/run-abc'' 0] =
     Some (Bytes ''Apply complete.'',
           (remote_reader (run_abc PlanRunning))\<lparr>lr_offset := 30\<rparr>,
           [ApiDo ''plans/run-abc'', ApiDo ''plans/run-abc'', ApiDo ''plans/run-abc'',
            LogChunkFetch ''https://logs.example/run-abc'' 0,
            LogChunkFetch ''https://logs.example/run-abc'' 15])"
proof -
  let ?r = "remote_reader (run_abc PlanRunning)"
  let ?u = "''https://logs.example/run-abc''"
  let ?hA = "[ApiDo ''plans/run-abc'', LogChunkFetch ?u 0, LogChunkFetch ?u 15]"
  let ?hB = "[ApiDo ''plans/run-abc'', ApiDo ''plans/run-abc'', ApiDo ''plans/run-abc'',
              LogChunkFetch ?u 0]"
  have tA: "\<not> lr_terminal (?r\<lparr>lr_offset := 30\<rparr>)"
    and tB: "\<not> lr_terminal (?r\<lparr>lr_offset := 15\<rparr>)"
    by (simp_all add: remote_reader_def)
  have dA: "lr_done (?r\<lparr>lr_offset := 30\<rparr>) =
              Logs_done remote_pkg remote_plans () (run_abc PlanRunning)"
    and dB: "lr_done (?r\<lparr>lr_offset := 15\<rparr>) =
              Logs_done remote_pkg remote_plans () (run_abc PlanRunning)"
    by (simp_all add: remote_reader_def)
  have eos: "LogReader_Read 2 remote_env (?r\<lparr>lr_offset := 30\<rparr>) ?hA =
     Some (EndOfStream, ?r\<lparr>lr_offset := 30, lr_terminal := True\<rparr>,
           ?hA @ [LogChunkFetch ?u 30, ApiDo ''plans/run-abc'', Sleep,
                  LogChunkFetch ?u 30, ApiDo ''plans/run-abc''])"
    by (simp add: stream_defs numeral_2_eq_2)
  have chunk: "fetchRange remote_env (lr_ctx (?r\<lparr>lr_offset := 15\<rparr>))
       (lr_logURL (?r\<lparr>lr_offset := 15\<rparr>)) (lr_offset (?r\<lparr>lr_offset := 15\<rparr>)) ?hB =
       Inr ''Apply complete.'' \<and> ''Apply complete.'' \<noteq> []"
    by (simp add: remote_env_def remote_log_def remote_reader_def)
  have fin: "fst (lr_done (?r\<lparr>lr_offset := 15\<rparr>) ?hB) = (True, None)"
    by (simp add: stream_defs)
  have "\<exists>hs. fetchRange remote_env (lr_ctx (?r\<lparr>lr_offset := 30\<rparr>))
            (lr_logURL (?r\<lparr>lr_offset := 30\<rparr>)) (lr_offset (?r\<lparr>lr_offset := 30\<rparr>))
            (?hA @ hs) = Inr [] \<and>
          lr_done (?r\<lparr>lr_offset := 30\<rparr>)
            (?hA @ hs @ [LogChunkFetch (lr_logURL (?r\<lparr>lr_offset := 30\<rparr>))
                           (lr_offset (?r\<lparr>lr_offset := 30\<rparr>))]) =
            ((True, None), ?hA @ [LogChunkFetch ?u 30, ApiDo ''plans/run-abc'', Sleep,
                LogChunkFetch ?u 30, ApiDo ''plans/run-abc'']) \<and>
          ?r\<lparr>lr_offset := 30, lr_terminal := True\<rparr> = ?r\<lparr>lr_offset := 30, lr_terminal := True\<rparr>"
    by (rule end_of_stream_after_empty_fetch_and_terminal
          [OF tA dA, THEN conjunct1, THEN mp, OF eos])
  then obtain hs where
    f: "fetchRange remote_env (lr_ctx (?r\<lparr>lr_offset := 30\<rparr>)) (lr_logURL (?r\<lparr>lr_offset := 30\<rparr>))
       (lr_offset (?r\<lparr>lr_offset := 30\<rparr>)) (?hA @ hs) = Inr []"
    and d: "lr_done (?r\<lparr>lr_offset := 30\<rparr>)
       (?hA @ hs @ [LogChunkFetch (lr_logURL (?r\<lparr>lr_offset := 30\<rparr>))
                      (lr_offset (?r\<lparr>lr_offset := 30\<rparr>))]) =
       ((True, None), ?hA @ [LogChunkFetch ?u 30, ApiDo ''plans/run-abc'', Sleep,
                LogChunkFetch ?u 30, ApiDo ''plans/run-abc''])"
    by (elim exE conjE)
  have sel: "lr_ctx (?r\<lparr>lr_offset := 30\<rparr>) = ()" "lr_logURL (?r\<lparr>lr_offset := 30\<rparr>) = ?u"
    "lr_offset (?r\<lparr>lr_offset := 30\<rparr>) = 30"
    by (simp_all add: remote_reader_def)
  from f have f': "fetchRange remote_env () ?u 30 (?hA @ hs) = Inr []"
    by (simp only: sel)
  from d have d': "fst (lr_done (?r\<lparr>lr_offset := 30\<rparr>) (?hA @ hs @ [LogChunkFetch ?u 30])) =
               (True, None)"
    by (simp only: sel fst_conv)
  have A: "\<exists>hs. fetchRange remote_env () ?u 30 (?hA @ hs) = Inr [] \<and>
             fst (lr_done (?r\<lparr>lr_offset := 30\<rparr>) (?hA @ hs @ [LogChunkFetch ?u 30])) =
               (True, None)"
  proof (intro exI conjI)
    show "fetchRange remote_env () ?u 30 (?hA @ hs) = Inr []"
      by (rule f')
    show "fst (lr_done (?r\<lparr>lr_offset := 30\<rparr>) (?hA @ hs @ [LogChunkFetch ?u 30])) =
            (True, None)"
      by (rule d')
  qed
  have selB: "lr_ctx (?r\<lparr>lr_offset := 15\<rparr>) = ()" "lr_logURL (?r\<lparr>lr_offset := 15\<rparr>) = ?u"
    "lr_offset (?r\<lparr>lr_offset := 15\<rparr>) = 15"
    "?r\<lparr>lr_offset := 15, lr_offset := 15 + length ''Apply complete.''\<rparr> = ?r\<lparr>lr_offset := 30\<rparr>"
    by (simp_all add: remote_reader_def)
  have "LogReader_Read (Suc 0) remote_env (?r\<lparr>lr_offset := 15\<rparr>) ?hB =
     Some (Bytes ''Apply complete.'',
           ?r\<lparr>lr_offset := 15,
              lr_offset := lr_offset (?r\<lparr>lr_offset := 15\<rparr>) + length ''Apply complete.''\<rparr>,
           ?hB @ [LogChunkFetch (lr_logURL (?r\<lparr>lr_offset := 15\<rparr>))
                    (lr_offset (?r\<lparr>lr_offset := 15\<rparr>))])"
    by (rule end_of_stream_after_empty_fetch_and_terminal
          [OF tB dB, THEN conjunct2, THEN mp, OF chunk])
  then have B: "LogReader_Read 1 remote_env (?r\<lparr>lr_offset := 15\<rparr>) ?hB =
     Some (Bytes ''Apply complete.'', ?r\<lparr>lr_offset := 30\<rparr>, ?hB @ [LogChunkFetch ?u 15])"
    by (simp only: selB One_nat_def)
  from chunk have chunk': "fetchRange remote_env () ?u 15 ?hB = Inr ''Apply complete.''"
    by (simp only: selB)
  have eos': "LogReader_Read 2 remote_env (?r\<lparr>lr_offset := 30\<rparr>) ?hA =
     Some (EndOfStream, ?r\<lparr>lr_offset := 30, lr_terminal := True\<rparr>,
           [ApiDo ''plans/run-abc'', LogChunkFetch ?u 0, LogChunkFetch ?u 15,
            LogChunkFetch ?u 30, ApiDo ''plans/run-abc'', Sleep,
            LogChunkFetch ?u 30, ApiDo ''plans/run-abc''])"
    using eos by (simp only: append.simps)
  have B': "LogReader_Read 1 remote_env (?r\<lparr>lr_offset := 15\<rparr>) ?hB =
     Some (Bytes ''Apply complete.'', ?r\<lparr>lr_offset := 30\<rparr>,
           [ApiDo ''plans/run-abc'', ApiDo ''plans/run-abc'', ApiDo ''plans/run-abc'',
            LogChunkFetch ?u 0, LogChunkFetch ?u 15])"
    using B by (simp only: append.simps)
  show ?thesis
    by (intro conjI) (rule tA dA eos' A chunk' fin B')+
qed

text \<open>
  Claim C7. When the identifier is valid, the request is built and sent, and
  \<^verbatim>\<open>json.Unmarshal\<close> fails on the body with \<open>e\<close>, \<^verbatim>\<open>ReadResourceChanges\<close> returns no result
  and \<open>e\<close>, after that one request and no other.
\<close>

theorem resource_changes_decode_error:
  assumes "validStringID g planID"
    and "NewRequest (client s) ''GET''
           (''plans/'' @ QueryEscape g planID @ ''/json-output-redacted'') None = Inr req"
    and "Do_Buffer (client s) ctx req h = Inr body"
    and "json_Unmarshal g body = Inl e"
  shows "ReadResourceChanges g s ctx planID h = (Inl e, h @ [ApiDo req])"
  using assms by (simp add: ReadResourceChanges_def)

text \<open>The body served for the redacted output of \<^verbatim>\<open>run-abc\<close> is not JSON.\<close>

theorem resource_changes_decode_error_witness:
  "validStringID remote_pkg ''run-abc'' \<and>
   NewRequest (client remote_plans) ''GET''
     (''plans/'' @ QueryEscape remote_pkg ''run-abc'' @ ''/json-output-redacted'') None =
     Inr ''plans/run-abc/json-output-redacted'' \<and>
   Do_Buffer (client remote_plans) () ''plans/run-abc/json-output-redacted'' [] = Inr ''not json'' \<and>
   json_Unmarshal remote_pkg ''not json'' = Inl (Foreign ''invalid character'') \<and>
   ReadResourceChanges remote_pkg remote_plans () ''run-abc'' [] =
     (Inl (Foreign ''invalid character''), [ApiDo ''plans/run-abc/json-output-redacted''])"
proof -
  have a: "validStringID remote_pkg ''run-abc''"
    by (simp add: remote_pkg_def)
  have b: "NewRequest (client remote_plans) ''GET''
     (''plans/'' @ QueryEscape remote_pkg ''run-abc'' @ ''/json-output-redacted'') None =
     Inr ''plans/run-abc/json-output-redacted''"
    by (simp add: remote_pkg_def remote_plans_def remote_client_def)
  have c: "Do_Buffer (client remote_plans) () ''plans/run-abc/json-output-redacted'' [] =
     Inr ''not json''"
    by (simp add: remote_plans_def remote_client_def remote_body_def)
  have d: "json_Unmarshal remote_pkg ''not json'' = Inl (Foreign ''invalid character'')"
    by (simp add: remote_pkg_def)
  from resource_changes_decode_error [OF a b c d] a b c d show ?thesis
    by simp
qed

text \<open>
  Claim C9. When the identifier is valid and the request is built and answered with the
  body \<open>body\<close>, \<^verbatim>\<open>ReadJSONOutput\<close> returns \<open>body\<close> as it is and no error, whatever the body
  holds; and its result is the same for every \<^verbatim>\<open>json.Unmarshal\<close>: it decodes nothing.
\<close>

theorem json_output_not_decoded:
  assumes "validStringID g planID"
    and "NewRequest (client s) ''GET''
           (''plans/'' @ QueryEscape g planID @ ''/json-output'') None = Inr req"
    and "Do_Buffer (client s) ctx req h = Inr body"
  shows "ReadJSONOutput g s ctx planID h = (Inr body, h @ [ApiDo req]) \<and>
         ReadJSONOutput (g\<lparr>json_Unmarshal := f\<rparr>) s ctx planID h =
           ReadJSONOutput g s ctx planID h"
  using assms by (simp add: ReadJSONOutput_def)

text \<open>The body served for the output of \<^verbatim>\<open>run-abc\<close> is cut short, and returned so.\<close>

theorem json_output_not_decoded_witness:
  "validStringID remote_pkg ''run-abc'' \<and>
   NewRequest (client remote_plans) ''GET''
     (''plans/'' @ QueryEscape remote_pkg ''run-abc'' @ ''/json-output'') None =
     Inr ''plans/run-abc/json-output'' \<and>
   Do_Buffer (client remote_plans) () ''plans/run-abc/json-output'' [] = Inr ''{'' \<and>
   json_Unmarshal remote_pkg ''{'' = Inl (Foreign ''invalid character'') \<and>
   ReadJSONOutput remote_pkg remote_plans () ''run-abc'' [] =
     (Inr ''{'', [ApiDo ''plans/run-abc/json-output''])"
proof -
  have a: "validStringID remote_pkg ''run-abc''"
    by (simp add: remote_pkg_def)
  have b: "NewRequest (client remote_plans) ''GET''
     (''plans/'' @ QueryEscape remote_pkg ''run-abc'' @ ''/json-output'') None =
     Inr ''plans/run-abc/json-output''"
    by (simp add: remote_pkg_def remote_plans_def remote_client_def)
  have c: "Do_Buffer (client remote_plans) () ''plans/run-abc/json-output'' [] = Inr ''{''"
    by (simp add: remote_plans_def remote_client_def remote_body_def)
  have d: "json_Unmarshal remote_pkg ''{'' = Inl (Foreign ''invalid character'')"
    by (simp add: remote_pkg_def)
  from json_output_not_decoded [OF a b c] a b c d show ?thesis
    by simp
qed

text \<open>
  Claim C6, amended. The package names exactly nine plan statuses: canceled, created,
  errored, finished, mfa\_waiting, pending, queued, running and unreachable, no two of
  them equal.
\<close>

theorem plan_status_constants:
  "PlanStatus_constants =
     [''canceled'', ''created'', ''errored'', ''finished'', ''mfa_waiting'',
      ''pending'', ''queued'', ''running'', ''unreachable''] \<and>
   distinct PlanStatus_constants"
  by (simp add: PlanStatus_constants_def PlanCanceled_def PlanCreated_def PlanErrored_def
      PlanFinished_def PlanMFAWaiting_def PlanPending_def PlanQueued_def PlanRunning_def
      PlanUnreachable_def)

text \<open>
  Claim C6 as it is written lists eight statuses, without created and with mfa-waiting
  spelled with a hyphen: that is not the set of the constants.
\<close>

theorem plan_status_constants_counterexample:
  "set PlanStatus_constants \<noteq>
     {''queued'', ''pending'', ''running'', ''mfa-waiting'', ''finished'', ''errored'',
      ''canceled'', ''unreachable''} \<and>
   PlanCreated \<in> set PlanStatus_constants \<and>
   ''mfa-waiting'' \<notin> set PlanStatus_constants"
proof -
  have a: "PlanCreated \<in> set PlanStatus_constants"
    by (simp add: PlanStatus_constants_def)
  have "PlanCreated \<notin> {''queued'', ''pending'', ''running'', ''mfa-waiting'',
      ''finished'', ''errored'', ''canceled'', ''unreachable''}"
    by (simp add: PlanCreated_def)
  with a have b: "set PlanStatus_constants \<noteq>
     {''queued'', ''pending'', ''running'', ''mfa-waiting'', ''finished'', ''errored'',
      ''canceled'', ''unreachable''}"
    by blast
  have c: "''mfa-waiting'' \<notin> set PlanStatus_constants"
    by (simp add: PlanStatus_constants_def PlanCanceled_def PlanCreated_def PlanErrored_def
        PlanFinished_def PlanMFAWaiting_def PlanPending_def PlanQueued_def PlanRunning_def
        PlanUnreachable_def)
  from b a c show ?thesis
    by simp
qed

lemma Logs_done_fetch:
  assumes "validStringID g (ID p)"
    and "NewRequest (client s) ''GET'' (''plans/'' @ QueryEscape g (ID p)) None = Inr req"
  shows "Logs_done g s ctx p h =
           ((case Do_Plan (client s) ctx req h of
               Inl e \<Rightarrow> (False, Some e)
             | Inr q \<Rightarrow>
                 (Status q \<in> {''finished'', ''errored'', ''canceled'', ''unreachable''}, None)),
            h @ [ApiDo req])"
  using assms
  by (auto simp: Logs_done_def Read_def terminal_defs split: sum.splits)

lemma call_times_fetch:
  assumes "\<And>h. d h = (f h, h @ [x])"
  shows "call_times k d h =
           (map (\<lambda>i. f (h @ replicate i x)) [0..<k], h @ replicate k x)"
proof (induction k arbitrary: h)
  case 0
  show ?case by simp
next
  case (Suc k)
  have "map (\<lambda>i. f (h @ replicate i x)) [0..<Suc k] =
          f h # map (\<lambda>i. f ((h @ [x]) @ replicate i x)) [0..<k]"
    by (simp add: map_upt_Suc del: upt_Suc)
  moreover have "h @ replicate (Suc k) x = (h @ [x]) @ replicate k x"
    by simp
  ultimately show ?case
    using Suc [of "h @ [x]"] assms [of h] by (simp del: upt_Suc replicate_Suc)
qed

text \<open>
  Claim C8, amended. For a reader built by \<^verbatim>\<open>Logs\<close> from a plan record whose identifier
  passes \<^verbatim>\<open>validStringID\<close> and for which the request can be built, \<open>k\<close> calls of the
  closure \<^verbatim>\<open>done\<close> in a row send \<open>k\<close> requests, and the answer of each call is computed
  from the record its own request fetched, at the history of that moment: nothing is
  kept from one call to the next.
\<close>

theorem done_reads_afresh:
  assumes "Logs g s ctx planID h0 = (Inr r, h1)"
    and "Read g s ctx planID h0 = (Inr p, h1)"
    and "validStringID g (ID p)"
    and "NewRequest (client s) ''GET'' (''plans/'' @ QueryEscape g (ID p)) None = Inr req"
  shows "call_times k (lr_done r) h =
           (map (\<lambda>i. case Do_Plan (client s) ctx req (h @ replicate i (ApiDo req)) of
                        Inl e \<Rightarrow> (False, Some e)
                      | Inr q \<Rightarrow>
                          (Status q \<in> {''finished'', ''errored'', ''canceled'', ''unreachable''},
                           None))
              [0..<k],
            h @ replicate k (ApiDo req))"
proof -
  have "lr_done r = Logs_done g s ctx p"
    using assms(1,2) by (rule Logs_closure)
  then have "\<And>h. lr_done r h =
           ((case Do_Plan (client s) ctx req h of
               Inl e \<Rightarrow> (False, Some e)
             | Inr q \<Rightarrow>
                 (Status q \<in> {''finished'', ''errored'', ''canceled'', ''unreachable''}, None)),
            h @ [ApiDo req])"
    using Logs_done_fetch [OF assms(3,4)] by simp
  then show ?thesis
    by (rule call_times_fetch)
qed


text \<open>Three calls for \<^verbatim>\<open>run-abc\<close> after \<^verbatim>\<open>Logs\<close>: running, then finished twice.\<close>

theorem done_reads_afresh_witness:
  "Logs remote_pkg remote_plans () ''run-abc'' [] =
     (Inr (remote_reader (run_abc PlanRunning)), [ApiDo ''plans/run-abc'']) \<and>
   Read remote_pkg remote_plans () ''run-abc'' [] =
     (Inr (run_abc PlanRunning), [ApiDo ''plans/run-abc'']) \<and>
   validStringID remote_pkg (ID (run_abc PlanRunning)) \<and>
   NewRequest (client remote_plans) ''GET''
     (''plans/'' @ QueryEscape remote_pkg (ID (run_abc PlanRunning))) None = Inr ''plans/run-abc'' \<and>
   call_times 3 (lr_done (remote_reader (run_abc PlanRunning))) [ApiDo ''plans/run-abc''] =
     ([(False, None), (True, None), (True, None)],
      [ApiDo ''plans/run-abc'', ApiDo ''plans/run-abc'', ApiDo ''plans/run-abc'',
       ApiDo ''plans/run-abc''])"
proof -
  have a: "Logs remote_pkg remote_plans () ''run-abc'' [] =
     (Inr (remote_reader (run_abc PlanRunning)), [ApiDo ''plans/run-abc''])"
    by (rule remote_Logs)
  have b: "Read remote_pkg remote_plans () ''run-abc'' [] =
     (Inr (run_abc PlanRunning), [ApiDo ''plans/run-abc''])"
    by (rule remote_Read)
  have c: "validStringID remote_pkg (ID (run_abc PlanRunning))"
    by (simp add: remote_pkg_def run_abc_def)
  have d: "NewRequest (client remote_plans) ''GET''
     (''plans/'' @ QueryEscape remote_pkg (ID (run_abc PlanRunning))) None = Inr ''plans/run-abc''"
    by (simp add: remote_pkg_def remote_plans_def remote_client_def run_abc_def)
  have e: "[0..<3] = [0, Suc 0, Suc (Suc 0)]"
    by (simp add: upt_rec numeral_3_eq_3)
  from done_reads_afresh [OF a b c d, of 3 "[ApiDo ''plans/run-abc'']"] a b c d show ?thesis
    by (simp add: e remote_plans_def remote_client_def remote_plan_def run_abc_def
        PlanRunning_def PlanFinished_def numeral_3_eq_3)
qed

text \<open>
  Claim C8 as it is written, for every call: the record served for \<^verbatim>\<open>run-noid\<close> has an
  empty identifier, and the closure built from it sends no request at all; each call
  fails on the identifier check of \<^verbatim>\<open>Read\<close>.
\<close>

theorem done_reads_afresh_counterexample:
  "Logs remote_pkg remote_plans () ''run-noid'' [] =
     (Inr (remote_reader ((run_abc PlanRunning)\<lparr>ID := []\<rparr>)), [ApiDo ''plans/run-noid'']) \<and>
   call_times 3 (lr_done (remote_reader ((run_abc PlanRunning)\<lparr>ID := []\<rparr>)))
       [ApiDo ''plans/run-noid''] =
     ([(False, Some ErrInvalidPlanID), (False, Some ErrInvalidPlanID),
       (False, Some ErrInvalidPlanID)],
      [ApiDo ''plans/run-noid''])"
  by (simp add: remote_defs Logs_done_def numeral_3_eq_3)

end
